theory Spec2Isabelle
  imports Complex_Main
begin

section \<open>Values and errors\<close>

text \<open>A cell of a row fetched from SQLite, as the Python driver hands it over. The
  challenges table holds integers, text and NULL only.\<close>

datatype sqlvalue = SNull | SInt int | SText string

datatype py_error = ValueError | OverflowError | KeyError

subsection \<open>Decimal text of an integer\<close>

definition digit_char :: "nat \<Rightarrow> char" where
  "digit_char n = char_of (48 + n)"

fun str_nat :: "nat \<Rightarrow> string" where
  "str_nat n = (if n < 10 then [digit_char n] else str_nat (n div 10) @ [digit_char (n mod 10)])"

declare str_nat.simps [simp del]

definition str_int :: "int \<Rightarrow> string" where
  "str_int i = (if i < 0 then CHR ''-'' # str_nat (nat (- i)) else str_nat (nat i))"

text \<open>Python's \<open>str\<close> on a fetched cell.\<close>

fun py_str :: "sqlvalue \<Rightarrow> string" where
  "py_str SNull = ''None''"
| "py_str (SInt i) = str_int i"
| "py_str (SText s) = s"

section \<open>Calendar dates and instants\<close>

text \<open>A date is (year, month, day). An instant is a naive datetime, counted in
  microseconds from the start of ordinal day 0, so that comparing two datetimes is
  comparing two integers.\<close>

type_synonym date = "int \<times> int \<times> int"
type_synonym datetime = int
type_synonym timedelta = int

definition is_leap :: "int \<Rightarrow> bool" where
  "is_leap y = (y mod 4 = 0 \<and> (y mod 100 \<noteq> 0 \<or> y mod 400 = 0))"

definition days_in_month :: "int \<Rightarrow> int \<Rightarrow> int" where
  "days_in_month y m =
     (if m = 2 then (if is_leap y then 29 else 28)
      else if m = 4 \<or> m = 6 \<or> m = 9 \<or> m = 11 then 30 else 31)"

definition valid_date :: "date \<Rightarrow> bool" where
  "valid_date dt = (case dt of (y, m, d) \<Rightarrow>
     1 \<le> y \<and> y \<le> 9999 \<and> 1 \<le> m \<and> m \<le> 12 \<and> 1 \<le> d \<and> d \<le> days_in_month y m)"

definition days_before_year :: "int \<Rightarrow> int" where
  "days_before_year y = (y - 1) * 365 + (y - 1) div 4 - (y - 1) div 100 + (y - 1) div 400"

definition days_before_month :: "int \<Rightarrow> int \<Rightarrow> int" where
  "days_before_month y m = sum_list (map (days_in_month y) [1..m - 1])"

definition ymd2ord :: "date \<Rightarrow> int" where
  "ymd2ord dt = (case dt of (y, m, d) \<Rightarrow> days_before_year y + days_before_month y m + d)"

definition us_per_second :: int where "us_per_second = 1000000"
definition us_per_day :: int where "us_per_day = 86400 * 1000000"

definition midnight :: "date \<Rightarrow> datetime" where
  "midnight dt = ymd2ord dt * us_per_day"

text \<open>The last representable instant is 9999-12-31 23:59:59.999999 (ordinal 3652059), the
  first is 0001-01-01 00:00:00; datetime arithmetic that leaves the range raises
  OverflowError.\<close>

definition max_ordinal :: int where "max_ordinal = 3652059"

definition datetime_min :: datetime where "datetime_min = 1 * us_per_day"
definition datetime_max :: datetime where "datetime_max = (max_ordinal + 1) * us_per_day - 1"

definition dt_add :: "datetime \<Rightarrow> timedelta \<Rightarrow> py_error + datetime" where
  "dt_add t d = (if datetime_min \<le> t + d \<and> t + d \<le> datetime_max then Inr (t + d)
                 else Inl OverflowError)"

definition timedelta_days :: "timedelta \<Rightarrow> int" where
  "timedelta_days td = td div us_per_day"

definition timedelta_seconds :: "timedelta \<Rightarrow> int" where
  "timedelta_seconds td = (td mod us_per_day) div us_per_second"

subsection \<open>strptime with the format %Y-%m-%d\<close>

definition is_digit :: "char \<Rightarrow> bool" where
  "is_digit c = (48 \<le> (of_char c :: nat) \<and> (of_char c :: nat) \<le> 57)"

definition digit_val :: "char \<Rightarrow> int" where
  "digit_val c = int (of_char c) - 48"

text \<open>%Y is exactly four digits.\<close>

fun take_year :: "string \<Rightarrow> (int \<times> string) option" where
  "take_year (a # b # c # d # rest) =
     (if is_digit a \<and> is_digit b \<and> is_digit c \<and> is_digit d
      then Some (digit_val a * 1000 + digit_val b * 100 + digit_val c * 10 + digit_val d, rest)
      else None)"
| "take_year _ = None"

text \<open>%m is the pattern 1[0-2]|0[1-9]|[1-9], alternatives tried in this order.\<close>

fun take_month :: "string \<Rightarrow> (int \<times> string) option" where
  "take_month (a # b # rest) =
     (if a = CHR ''1'' \<and> (b = CHR ''0'' \<or> b = CHR ''1'' \<or> b = CHR ''2'')
        then Some (10 + digit_val b, rest)
      else if a = CHR ''0'' \<and> is_digit b \<and> b \<noteq> CHR ''0'' then Some (digit_val b, rest)
      else if is_digit a \<and> a \<noteq> CHR ''0'' then Some (digit_val a, b # rest)
      else None)"
| "take_month [a] = (if is_digit a \<and> a \<noteq> CHR ''0'' then Some (digit_val a, []) else None)"
| "take_month [] = None"

text \<open>%d is the pattern 3[0-1]|[1-2]\d|0[1-9]|[1-9]| [1-9], alternatives tried in this
  order.\<close>

fun take_day :: "string \<Rightarrow> (int \<times> string) option" where
  "take_day (a # b # rest) =
     (if a = CHR ''3'' \<and> (b = CHR ''0'' \<or> b = CHR ''1'') then Some (30 + digit_val b, rest)
      else if (a = CHR ''1'' \<or> a = CHR ''2'') \<and> is_digit b
        then Some (digit_val a * 10 + digit_val b, rest)
      else if a = CHR ''0'' \<and> is_digit b \<and> b \<noteq> CHR ''0'' then Some (digit_val b, rest)
      else if is_digit a \<and> a \<noteq> CHR ''0'' then Some (digit_val a, b # rest)
      else if a = CHR '' '' \<and> is_digit b \<and> b \<noteq> CHR ''0'' then Some (digit_val b, rest)
      else None)"
| "take_day [a] = (if is_digit a \<and> a \<noteq> CHR ''0'' then Some (digit_val a, []) else None)"
| "take_day [] = None"

fun expect_dash :: "string \<Rightarrow> string option" where
  "expect_dash (c # rest) = (if c = CHR ''-'' then Some rest else None)"
| "expect_dash [] = None"

text \<open>The whole string must be consumed, and the three numbers must form a date of the
  calendar; every failure is a ValueError.\<close>

definition strptime_ymd :: "string \<Rightarrow> py_error + date" where
  "strptime_ymd s =
     (case take_year s of None \<Rightarrow> Inl ValueError
      | Some (y, s1) \<Rightarrow>
     (case expect_dash s1 of None \<Rightarrow> Inl ValueError
      | Some s2 \<Rightarrow>
     (case take_month s2 of None \<Rightarrow> Inl ValueError
      | Some (m, s3) \<Rightarrow>
     (case expect_dash s3 of None \<Rightarrow> Inl ValueError
      | Some s4 \<Rightarrow>
     (case take_day s4 of None \<Rightarrow> Inl ValueError
      | Some (d, s5) \<Rightarrow>
        if s5 = [] \<and> valid_date (y, m, d) then Inr (y, m, d) else Inl ValueError)))))"

section \<open>The status resolver\<close>

definition plural_s :: "int \<Rightarrow> string" where
  "plural_s n = (if n \<noteq> 1 then ''s'' else [])"

definition format_time_remaining :: "timedelta \<Rightarrow> string" where
  "format_time_remaining time_diff =
     (if timedelta_days time_diff > 1 then str_int (timedelta_days time_diff) @ '' days''
      else if timedelta_days time_diff = 1 then ''1 day''
      else
        let hours = timedelta_seconds time_diff div 3600;
            minutes = (timedelta_seconds time_diff mod 3600) div 60
        in if hours > 0 then str_int hours @ '' hour'' @ plural_s hours
           else if minutes > 0 then str_int minutes @ '' minute'' @ plural_s minutes
           else ''less than a minute'')"

text \<open>The tuple unpacking of get_challenge_status: a row of 8 cells or, in the other
  branch, of exactly 10 cells; in both the start date is the fourth cell and the end date
  the fifth. Any other width fails to unpack.\<close>

definition unpack_dates :: "sqlvalue list \<Rightarrow> py_error + (sqlvalue \<times> sqlvalue)" where
  "unpack_dates challenge =
     (if length challenge = 8 then Inr (challenge ! 3, challenge ! 4)
      else if length challenge = 10 then Inr (challenge ! 3, challenge ! 4)
      else Inl ValueError)"

definition backslash :: char where "backslash = CHR 0x5C"

definition get_challenge_status ::
  "datetime \<Rightarrow> sqlvalue list option \<Rightarrow> py_error + (string option \<times> string option)" where
  "get_challenge_status now challenge =
     (case challenge of None \<Rightarrow> Inr (None, None)
      | Some row \<Rightarrow>
        if row = [] then Inr (None, None)
        else
     (case unpack_dates row of Inl e \<Rightarrow> Inl e
      | Inr (start_date, end_date) \<Rightarrow>
     (case strptime_ymd (py_str start_date) of Inl e \<Rightarrow> Inl e
      | Inr sd \<Rightarrow>
     (case strptime_ymd (py_str end_date) of Inl e \<Rightarrow> Inl e
      | Inr ed \<Rightarrow>
     (case dt_add (midnight ed) us_per_day of Inl e \<Rightarrow> Inl e
      | Inr next_midnight \<Rightarrow>
     (case dt_add next_midnight (- us_per_second) of Inl e \<Rightarrow> Inl e
      | Inr end_datetime \<Rightarrow>
     (case dt_add end_datetime us_per_day of Inl e \<Rightarrow> Inl e
      | Inr grace_end \<Rightarrow>
        let start_datetime = midnight sd in
        if now < start_datetime
          then Inr (Some ''upcoming'',
                    Some (''Starts in '' @ format_time_remaining (start_datetime - now)))
        else if start_datetime \<le> now \<and> now \<le> end_datetime
          then Inr (Some ''active'',
                    Some (''Active '' @ [backslash] @ ''- ''
                          @ format_time_remaining (end_datetime - now)
                          @ '' remaining'' @ [backslash] @ ''!''))
        else if end_datetime < now \<and> now \<le> grace_end
          then Inr (Some ''grace_period'',
                    Some (''Grace period '' @ [backslash] @ ''- ''
                          @ format_time_remaining (grace_end - now)
                          @ '' left to submit'' @ [backslash] @ ''!''))
        else Inr (Some ''ended'', Some ''Challenge has ended''))))))))"

text \<open>The three instants the resolver compares the current time with.\<close>

definition start_instant :: "date \<Rightarrow> datetime" where
  "start_instant sd = midnight sd"

definition end_instant :: "date \<Rightarrow> datetime" where
  "end_instant ed = midnight ed + us_per_day - us_per_second"

definition grace_instant :: "date \<Rightarrow> datetime" where
  "grace_instant ed = end_instant ed + us_per_day"

definition resolved_status ::
  "py_error + (string option \<times> string option) \<Rightarrow> py_error + string option" where
  "resolved_status r = (case r of Inl e \<Rightarrow> Inl e | Inr (st, msg) \<Rightarrow> Inr st)"

section \<open>The database\<close>

text \<open>The challenges table, one record per row. The id is an INTEGER PRIMARY KEY and so
  never NULL; the other columns hold whatever was written.\<close>

record challenge =
  ch_id :: int
  ch_description :: sqlvalue
  ch_scoring_system :: sqlvalue
  ch_challenge_type :: sqlvalue
  ch_type_description :: sqlvalue
  ch_start_date :: sqlvalue
  ch_end_date :: sqlvalue
  ch_status :: sqlvalue
  ch_created_by :: sqlvalue
  ch_created_at :: sqlvalue

text \<open>The order in which SELECT * lists the columns is the order in which the table
  acquired them. Declared is the order of the CREATE TABLE statement of init_database.
  Migrated is the order of an older table of eight columns (id, description,
  scoring_system, start_date, end_date, status, created_by, created_at) to which
  init_database added challenge_type and type_description by ALTER TABLE.\<close>

datatype layout = Declared | Migrated

fun select_star :: "layout \<Rightarrow> challenge \<Rightarrow> sqlvalue list" where
  "select_star Declared c =
     [SInt (ch_id c), ch_description c, ch_scoring_system c, ch_challenge_type c,
      ch_type_description c, ch_start_date c, ch_end_date c, ch_status c, ch_created_by c,
      ch_created_at c]"
| "select_star Migrated c =
     [SInt (ch_id c), ch_description c, ch_scoring_system c, ch_start_date c, ch_end_date c,
      ch_status c, ch_created_by c, ch_created_at c, ch_challenge_type c,
      ch_type_description c]"

record score =
  sc_user_id :: int
  sc_date :: date
  sc_points :: int
  sc_challenge_id :: int

record notification =
  nt_challenge_id :: int
  nt_notification_type :: string
  nt_sent_date :: string

text \<open>The REAL columns of baseline_values are modelled as exact real numbers.\<close>

record baseline =
  bv_user_id :: int
  bv_challenge_id :: int
  bv_baseline_value :: real
  bv_current_value :: real
  bv_last_updated :: string

record user =
  us_telegram_id :: int
  us_registered_username :: sqlvalue

text \<open>The state of the bot: the tables, the value of the AUTOINCREMENT counter of the
  challenges table, and the messages handed to send_challenge_notification so far, each
  recorded by challenge id and event kind (the text of a message is not modelled).\<close>

record bot =
  layout :: layout
  challenges :: "challenge list"
  challenges_seq :: int
  scores :: "score list"
  challenge_notifications :: "notification list"
  baseline_values :: "baseline list"
  users :: "user list"
  outbox :: "(int \<times> string) list"

subsection \<open>Ordering of stored values\<close>

fun text_less :: "string \<Rightarrow> string \<Rightarrow> bool" where
  "text_less [] [] = False"
| "text_less [] (y # ys) = True"
| "text_less (x # xs) [] = False"
| "text_less (x # xs) (y # ys) =
     ((of_char x :: nat) < of_char y \<or> (x = y \<and> text_less xs ys))"

text \<open>SQLite sorts NULL first, then numbers, then text.\<close>

fun sql_less :: "sqlvalue \<Rightarrow> sqlvalue \<Rightarrow> bool" where
  "sql_less SNull SNull = False"
| "sql_less SNull _ = True"
| "sql_less (SInt a) SNull = False"
| "sql_less (SInt a) (SInt b) = (a < b)"
| "sql_less (SInt a) (SText t) = True"
| "sql_less (SText s) (SText t) = text_less s t"
| "sql_less (SText s) _ = False"

subsection \<open>get_current_challenge\<close>

definition in_active_set :: "sqlvalue \<Rightarrow> bool" where
  "in_active_set v =
     (v = SText ''active'' \<or> v = SText ''upcoming'' \<or> v = SText ''grace_period'')"

text \<open>ORDER BY created_at DESC LIMIT 1: a row with the greatest created_at; among equal
  ones the first in table order.\<close>

fun newest :: "challenge list \<Rightarrow> challenge option" where
  "newest [] = None"
| "newest (c # cs) =
     (case newest cs of None \<Rightarrow> Some c
      | Some m \<Rightarrow> if sql_less (ch_created_at c) (ch_created_at m) then Some m else Some c)"

definition current_challenge_record :: "bot \<Rightarrow> challenge option" where
  "current_challenge_record s = newest (filter (\<lambda>c. in_active_set (ch_status c)) (challenges s))"

definition get_current_challenge :: "bot \<Rightarrow> sqlvalue list option" where
  "get_current_challenge s = map_option (select_star (layout s)) (current_challenge_record s)"

subsection \<open>Status writes and the notification gate\<close>

definition update_challenge_status :: "bot \<Rightarrow> int \<Rightarrow> sqlvalue \<Rightarrow> bot" where
  "update_challenge_status s challenge_id new_status =
     s\<lparr>challenges := map (\<lambda>c. if ch_id c = challenge_id then c\<lparr>ch_status := new_status\<rparr> else c)
                         (challenges s)\<rparr>"

definition notification_key :: "int \<Rightarrow> string \<Rightarrow> notification \<Rightarrow> bool" where
  "notification_key challenge_id notification_type n =
     (nt_challenge_id n = challenge_id \<and> nt_notification_type n = notification_type)"

definition has_notification_been_sent :: "bot \<Rightarrow> int \<Rightarrow> string \<Rightarrow> bool" where
  "has_notification_been_sent s challenge_id notification_type =
     list_ex (notification_key challenge_id notification_type) (challenge_notifications s)"

text \<open>INSERT OR REPLACE on the primary key (challenge_id, notification_type): a row with
  the same key is deleted, then the new row is inserted; sent_date is not among the
  inserted columns and takes its default, the CURRENT_TIMESTAMP of the call.\<close>

definition mark_notification_sent :: "string \<Rightarrow> bot \<Rightarrow> int \<Rightarrow> string \<Rightarrow> bot" where
  "mark_notification_sent current_timestamp s challenge_id notification_type =
     s\<lparr>challenge_notifications :=
         filter (\<lambda>n. \<not> notification_key challenge_id notification_type n)
                (challenge_notifications s)
         @ [\<lparr>nt_challenge_id = challenge_id, nt_notification_type = notification_type,
             nt_sent_date = current_timestamp\<rparr>]\<rparr>"

definition send_challenge_notification :: "bot \<Rightarrow> int \<Rightarrow> string \<Rightarrow> bot" where
  "send_challenge_notification s challenge_id event_kind =
     s\<lparr>outbox := outbox s @ [(challenge_id, event_kind)]\<rparr>"

subsection \<open>The scheduler tick\<close>

datatype outcome = Returned | Raised py_error

definition sql_of_str :: "string option \<Rightarrow> sqlvalue" where
  "sql_of_str v = (case v of None \<Rightarrow> SNull | Some t \<Rightarrow> SText t)"

text \<open>check_and_send_notifications. A database write made before an exception is raised
  stays committed (update_challenge_status commits on its own connection), so the state
  is returned together with the outcome.\<close>

definition check_and_send_notifications :: "datetime \<Rightarrow> string \<Rightarrow> bot \<Rightarrow> bot \<times> outcome" where
  "check_and_send_notifications now current_timestamp s =
     (case current_challenge_record s of None \<Rightarrow> (s, Returned)
      | Some c \<Rightarrow>
        let challenge = select_star (layout s) c;
            challenge_id = ch_id c
        in
     (case get_challenge_status now (Some challenge) of Inl e \<Rightarrow> (s, Raised e)
      | Inr (actual_status, status_message) \<Rightarrow>
        let s1 = (if challenge ! 5 \<noteq> sql_of_str actual_status
                  then update_challenge_status s challenge_id (sql_of_str actual_status)
                  else s)
        in
        if actual_status = Some ''active''
           \<and> \<not> has_notification_been_sent s1 challenge_id ''start''
        then
          (case strptime_ymd (py_str (challenge ! 5)) of Inl e \<Rightarrow> (s1, Raised e)
           | Inr start_date \<Rightarrow>
          (case strptime_ymd (py_str (challenge ! 6)) of Inl e \<Rightarrow> (s1, Raised e)
           | Inr end_date \<Rightarrow>
             (mark_notification_sent current_timestamp
                (send_challenge_notification s1 challenge_id ''start'') challenge_id ''start'',
              Returned)))
        else if actual_status = Some ''grace_period''
           \<and> \<not> has_notification_been_sent s1 challenge_id ''ending''
        then
          (mark_notification_sent current_timestamp
             (send_challenge_notification s1 challenge_id ''ending'') challenge_id ''ending'',
           Returned)
        else if actual_status = Some ''ended''
           \<and> \<not> has_notification_been_sent s1 challenge_id ''final_results''
        then
          (update_challenge_status
             (mark_notification_sent current_timestamp
                (send_challenge_notification s1 challenge_id ''final_results'')
                challenge_id ''final_results'')
             challenge_id (SText ''completed''),
           Returned)
        else (s1, Returned)))"

section \<open>The conversation handlers that write\<close>

text \<open>The wall clock as the handlers read it: today's date and the microseconds since
  midnight. A handler is given the reply already stripped and lower-cased, and the
  entries of the conversation's user_data it reads.\<close>

type_synonym clock = "date \<times> int"

definition instant :: "clock \<Rightarrow> datetime" where
  "instant now = midnight (fst now) + snd now"

definition current_year :: "clock \<Rightarrow> int" where
  "current_year now = fst (fst now)"

definition current_month :: "clock \<Rightarrow> int" where
  "current_month now = fst (snd (fst now))"

text \<open>datetime(year, month, day).date() raises ValueError when the day does not exist.\<close>

definition make_date :: "int \<Rightarrow> int \<Rightarrow> int \<Rightarrow> py_error + date" where
  "make_date y m d = (if valid_date (y, m, d) then Inr (y, m, d) else Inl ValueError)"

datatype reply =
    NoActiveChallenge
  | CannotAddScores "string option"
  | PointsAdded
  | PointsAdditionCancelled
  | PleaseReplyYN
  | RemovedEntries nat
  | ScoreRemovalCancelled
  | PointsUpdated
  | PointsEditCancelled
  | PointsMustBePositive
  | MaximumTotalPoints
  | MaximumPointsPerDay
  | SessionExpired
  | ConfirmAdd int int
  | ChallengeCreated
  | ChallengeCreationCancelled
  | ChallengeUpdated
  | DateConversionError
  | EditCancelled
  | ValueTooLarge
  | BaselineSet real
  | ValueUpdated real

datatype next_state = Stay | End

type_synonym handler_result = "py_error + (reply \<times> next_state)"

subsection \<open>Adding scores\<close>


text \<open>The loop of INSERT statements; an impossible day raises before anything is
  committed.\<close>

fun insert_scores ::
  "int \<Rightarrow> int \<Rightarrow> int \<Rightarrow> int \<Rightarrow> int \<Rightarrow> int list \<Rightarrow> score list \<Rightarrow> py_error + score list" where
  "insert_scores user_id challenge_id points_per_day y m [] rows = Inr rows"
| "insert_scores user_id challenge_id points_per_day y m (day # rest) rows =
     (case make_date y m day of Inl e \<Rightarrow> Inl e
      | Inr date_obj \<Rightarrow>
          insert_scores user_id challenge_id points_per_day y m rest
            (rows @ [\<lparr>sc_user_id = user_id, sc_date = date_obj, sc_points = points_per_day,
                      sc_challenge_id = challenge_id\<rparr>]))"

definition add_score_confirm ::
  "clock \<Rightarrow> bot \<Rightarrow> string \<Rightarrow> int \<Rightarrow> int list \<Rightarrow> int \<Rightarrow> bot \<times> handler_result" where
  "add_score_confirm now s response user_id dates points_per_day =
     (if response = ''y'' then
        (case current_challenge_record s of
           None \<Rightarrow> (s, Inr (NoActiveChallenge, End))
         | Some c \<Rightarrow>
        (case get_challenge_status (instant now) (Some (select_star (layout s) c)) of
           Inl e \<Rightarrow> (s, Inl e)
         | Inr (actual_status, status_message) \<Rightarrow>
             if actual_status \<noteq> Some ''active'' \<and> actual_status \<noteq> Some ''grace_period''
             then (s, Inr (CannotAddScores status_message, End))
             else
               (case insert_scores user_id (ch_id c) points_per_day
                       (current_year now) (current_month now) dates (scores s) of
                  Inl e \<Rightarrow> (s, Inl e)
                | Inr rows \<Rightarrow> (s\<lparr>scores := rows\<rparr>, Inr (PointsAdded, End)))))
      else if response = ''n'' then (s, Inr (PointsAdditionCancelled, End))
      else (s, Inr (PleaseReplyYN, Stay)))"

subsection \<open>Removing and editing scores\<close>

fun delete_scores ::
  "int \<Rightarrow> int \<Rightarrow> int \<Rightarrow> int \<Rightarrow> int list \<Rightarrow> score list \<Rightarrow> py_error + score list" where
  "delete_scores user_id challenge_id y m [] rows = Inr rows"
| "delete_scores user_id challenge_id y m (day # rest) rows =
     (case make_date y m day of Inl e \<Rightarrow> Inl e
      | Inr date_obj \<Rightarrow>
          delete_scores user_id challenge_id y m rest
            (filter (\<lambda>r. \<not> (sc_user_id r = user_id \<and> sc_date r = date_obj
                              \<and> sc_challenge_id r = challenge_id)) rows))"

definition remove_score_confirm ::
  "clock \<Rightarrow> bot \<Rightarrow> string \<Rightarrow> int \<Rightarrow> int list \<Rightarrow> bot \<times> handler_result" where
  "remove_score_confirm now s response user_id dates =
     (if response = ''y'' then
        (case current_challenge_record s of
           None \<Rightarrow> (s, Inr (NoActiveChallenge, End))
         | Some c \<Rightarrow>
        (case delete_scores user_id (ch_id c) (current_year now) (current_month now) dates
                (scores s) of
           Inl e \<Rightarrow> (s, Inl e)
         | Inr rows \<Rightarrow>
             (s\<lparr>scores := rows\<rparr>,
              Inr (RemovedEntries (length (scores s) - length rows), End))))
      else if response = ''n'' then (s, Inr (ScoreRemovalCancelled, End))
      else (s, Inr (PleaseReplyYN, Stay)))"

definition edit_score_confirm ::
  "clock \<Rightarrow> bot \<Rightarrow> string \<Rightarrow> int \<Rightarrow> int list \<Rightarrow> int \<Rightarrow> bot \<times> handler_result" where
  "edit_score_confirm now s response user_id dates points_per_day =
     (if response = ''y'' then
        (case current_challenge_record s of
           None \<Rightarrow> (s, Inr (NoActiveChallenge, End))
         | Some c \<Rightarrow>
        (case delete_scores user_id (ch_id c) (current_year now) (current_month now) dates
                (scores s) of
           Inl e \<Rightarrow> (s, Inl e)
         | Inr kept \<Rightarrow>
             if points_per_day > 0 then
               (case insert_scores user_id (ch_id c) points_per_day
                       (current_year now) (current_month now) dates kept of
                  Inl e \<Rightarrow> (s, Inl e)
                | Inr rows \<Rightarrow> (s\<lparr>scores := rows\<rparr>, Inr (PointsUpdated, End)))
             else (s\<lparr>scores := kept\<rparr>, Inr (PointsUpdated, End))))
      else if response = ''n'' then (s, Inr (PointsEditCancelled, End))
      else (s, Inr (PleaseReplyYN, Stay)))"

subsection \<open>Baseline and current value\<close>

definition baseline_key :: "int \<Rightarrow> int \<Rightarrow> baseline \<Rightarrow> bool" where
  "baseline_key user_id challenge_id b =
     (bv_user_id b = user_id \<and> bv_challenge_id b = challenge_id)"

text \<open>setbaseline_value, from the parsed number on. The write is INSERT OR REPLACE on the
  primary key (user_id, challenge_id). The challenge id is the one the conversation
  stored; None and 0 both count as missing.\<close>

definition setbaseline_value ::
  "string \<Rightarrow> bot \<Rightarrow> real \<Rightarrow> int \<Rightarrow> int option \<Rightarrow> bot \<times> handler_result" where
  "setbaseline_value current_timestamp s v user_id baseline_challenge_id =
     (if abs v > 1000000 then (s, Inr (ValueTooLarge, Stay))
      else
        (case baseline_challenge_id of
           None \<Rightarrow> (s, Inr (SessionExpired, End))
         | Some challenge_id \<Rightarrow>
             if challenge_id = 0 then (s, Inr (SessionExpired, End))
             else
               (s\<lparr>baseline_values :=
                    filter (\<lambda>b. \<not> baseline_key user_id challenge_id b) (baseline_values s)
                    @ [\<lparr>bv_user_id = user_id, bv_challenge_id = challenge_id,
                        bv_baseline_value = v, bv_current_value = v,
                        bv_last_updated = current_timestamp\<rparr>]\<rparr>,
                Inr (BaselineSet v, End))))"

definition percent_change :: "real \<Rightarrow> real \<Rightarrow> real" where
  "percent_change baseline_value current_value =
     ((current_value - baseline_value) / abs baseline_value) * 100"

definition updatevalue_value ::
  "string \<Rightarrow> bot \<Rightarrow> real \<Rightarrow> int \<Rightarrow> int option \<Rightarrow> real option \<Rightarrow> bot \<times> handler_result" where
  "updatevalue_value current_timestamp s new_value user_id update_challenge_id baseline_value =
     (if abs new_value > 1000000 then (s, Inr (ValueTooLarge, Stay))
      else
        (case (update_challenge_id, baseline_value) of
           (Some challenge_id, Some bv) \<Rightarrow>
             if challenge_id = 0 then (s, Inr (SessionExpired, End))
             else
               (s\<lparr>baseline_values :=
                    map (\<lambda>b. if baseline_key user_id challenge_id b
                              then b\<lparr>bv_current_value := new_value,
                                     bv_last_updated := current_timestamp\<rparr>
                              else b) (baseline_values s)\<rparr>,
                Inr (ValueUpdated (if bv \<noteq> 0 then percent_change bv new_value else 0), End))
         | _ \<Rightarrow> (s, Inr (SessionExpired, End))))"

section \<open>Creating and editing a challenge\<close>

definition zfill :: "nat \<Rightarrow> string \<Rightarrow> string" where
  "zfill n t = replicate (n - length t) (CHR ''0'') @ t"

text \<open>The text SQLite receives for a date object, and the text strftime prints with the
  format %Y-%m-%d: YYYY-MM-DD, zero-padded (strftime pads the year as the C library does;
  the model pads it to four digits, as isoformat does).\<close>

definition isoformat :: "date \<Rightarrow> string" where
  "isoformat dt = (case dt of (y, m, d) \<Rightarrow>
     zfill 4 (str_int y) @ ''-'' @ zfill 2 (str_int m) @ ''-'' @ zfill 2 (str_int d))"







section \<open>Statistics\<close>

text \<open>get_challenge_stats returns an empty dictionary when no challenge has the id; each
  entry below is one key of the dictionary, None when the key is absent. SQLite's AVG is a
  floating-point mean; it is modelled as the exact quotient.\<close>

definition challenge_exists :: "bot \<Rightarrow> int \<Rightarrow> bool" where
  "challenge_exists s challenge_id = list_ex (\<lambda>c. ch_id c = challenge_id) (challenges s)"

text \<open>SELECT SUM(points) ... WHERE challenge_id = ? GROUP BY user_id.\<close>

definition user_totals :: "bot \<Rightarrow> int \<Rightarrow> (int \<times> int) list" where
  "user_totals s challenge_id =
     (let rows = filter (\<lambda>r. sc_challenge_id r = challenge_id) (scores s)
      in map (\<lambda>u. (u, sum_list (map sc_points (filter (\<lambda>r. sc_user_id r = u) rows))))
             (remdups (map sc_user_id rows)))"

text \<open>Python's round of a float to an integer: to the nearest, halves to the even
  neighbour.\<close>

definition py_round :: "real \<Rightarrow> int" where
  "py_round x =
     (let f = \<lfloor>x\<rfloor>; d = x - of_int f
      in if d < 1 / 2 then f else if d > 1 / 2 then f + 1 else if even f then f else f + 1)"

definition mean :: "real list \<Rightarrow> real option" where
  "mean xs = (if xs = [] then None else Some (sum_list xs / real (length xs)))"

definition avg_points_per_player :: "bot \<Rightarrow> int \<Rightarrow> int option" where
  "avg_points_per_player s challenge_id =
     (if \<not> challenge_exists s challenge_id then None
      else
        (case mean (map real_of_int
                      (filter (\<lambda>total_points. total_points > 0)
                              (map snd (user_totals s challenge_id)))) of
           None \<Rightarrow> None
         | Some avg \<Rightarrow> if avg = 0 then None else Some (py_round avg)))"

subsection \<open>Change challenges\<close>

text \<open>FROM baseline_values b JOIN users u ON b.user_id = u.telegram_id WHERE
  b.challenge_id = ?: every baseline row of the challenge, paired with each users row of
  its participant.\<close>

definition baseline_join :: "bot \<Rightarrow> int \<Rightarrow> (user \<times> baseline) list" where
  "baseline_join s challenge_id =
     concat (map (\<lambda>b. map (\<lambda>u. (u, b))
                         (filter (\<lambda>u. us_telegram_id u = bv_user_id b) (users s)))
                 (filter (\<lambda>b. bv_challenge_id b = challenge_id) (baseline_values s)))"

definition row_percent :: "baseline \<Rightarrow> real" where
  "row_percent b = percent_change (bv_baseline_value b) (bv_current_value b)"

text \<open>The three rankings, each with its LIMIT: gains (ORDER BY percent_change DESC),
  losses (ORDER BY percent_change ASC) and absolute change (ORDER BY ABS(...) DESC).\<close>

definition gain_ranking :: "nat \<Rightarrow> bot \<Rightarrow> int \<Rightarrow> (user \<times> baseline) list" where
  "gain_ranking limit s challenge_id =
     take limit (sort_key (\<lambda>(u, b). - row_percent b)
       (filter (\<lambda>(u, b). bv_baseline_value b \<noteq> 0 \<and> bv_current_value b > bv_baseline_value b)
               (baseline_join s challenge_id)))"

definition loss_ranking :: "nat \<Rightarrow> bot \<Rightarrow> int \<Rightarrow> (user \<times> baseline) list" where
  "loss_ranking limit s challenge_id =
     take limit (sort_key (\<lambda>(u, b). row_percent b)
       (filter (\<lambda>(u, b). bv_baseline_value b \<noteq> 0 \<and> bv_current_value b < bv_baseline_value b)
               (baseline_join s challenge_id)))"

definition change_ranking :: "nat \<Rightarrow> bot \<Rightarrow> int \<Rightarrow> (user \<times> baseline) list" where
  "change_ranking limit s challenge_id =
     take limit (sort_key (\<lambda>(u, b). - abs (row_percent b))
       (filter (\<lambda>(u, b). bv_baseline_value b \<noteq> 0) (baseline_join s challenge_id)))"


definition is_change_challenge :: "bot \<Rightarrow> int \<Rightarrow> bool" where
  "is_change_challenge s challenge_id =
     (case filter (\<lambda>c. ch_id c = challenge_id) (challenges s) of
        [] \<Rightarrow> False
      | c # _ \<Rightarrow> ch_challenge_type c = SText ''change'')"

definition nonempty :: "'a list \<Rightarrow> 'a list option" where
  "nonempty xs = (if xs = [] then None else Some xs)"

text \<open>The keys top_gains, top_losses, avg_change and biggest_change of get_challenge_stats,
  the leaderboards of stats_gain, stats_loss and stats_change, and the final ranking of a
  change challenge in check_and_send_notifications.\<close>

definition stats_top_gains :: "bot \<Rightarrow> int \<Rightarrow> (sqlvalue \<times> real) list option" where
  "stats_top_gains s challenge_id =
     (if is_change_challenge s challenge_id
      then nonempty (map (\<lambda>(u, b). (us_registered_username u, row_percent b))
                         (gain_ranking 3 s challenge_id))
      else None)"

definition stats_top_losses :: "bot \<Rightarrow> int \<Rightarrow> (sqlvalue \<times> real) list option" where
  "stats_top_losses s challenge_id =
     (if is_change_challenge s challenge_id
      then nonempty (map (\<lambda>(u, b). (us_registered_username u, row_percent b))
                         (loss_ranking 3 s challenge_id))
      else None)"


definition stats_biggest_change :: "bot \<Rightarrow> int \<Rightarrow> (sqlvalue \<times> real \<times> real \<times> real) option" where
  "stats_biggest_change s challenge_id =
     (if is_change_challenge s challenge_id
      then (case change_ranking 1 s challenge_id of
              [] \<Rightarrow> None
            | (u, b) # _ \<Rightarrow>
                Some (us_registered_username u, bv_baseline_value b, bv_current_value b,
                      abs (row_percent b)))
      else None)"

definition stats_gain_leaderboard :: "bot \<Rightarrow> int \<Rightarrow> (user \<times> baseline) list" where
  "stats_gain_leaderboard s challenge_id = gain_ranking 20 s challenge_id"

definition stats_loss_leaderboard :: "bot \<Rightarrow> int \<Rightarrow> (user \<times> baseline) list" where
  "stats_loss_leaderboard s challenge_id = loss_ranking 20 s challenge_id"

definition stats_change_leaderboard :: "bot \<Rightarrow> int \<Rightarrow> (user \<times> baseline) list" where
  "stats_change_leaderboard s challenge_id = change_ranking 20 s challenge_id"

definition final_change_ranking :: "bot \<Rightarrow> int \<Rightarrow> (user \<times> baseline) list" where
  "final_change_ranking s challenge_id = change_ranking 3 s challenge_id"

subsection \<open>The average per active player, in the words of the specification\<close>

text \<open>The participants of a challenge, the total of a participant, the participants whose
  total is strictly positive, and the mean of the totals over these.\<close>

definition participants :: "bot \<Rightarrow> int \<Rightarrow> int set" where
  "participants s challenge_id =
     sc_user_id ` set (filter (\<lambda>r. sc_challenge_id r = challenge_id) (scores s))"

definition participant_total :: "bot \<Rightarrow> int \<Rightarrow> int \<Rightarrow> int" where
  "participant_total s challenge_id u =
     sum_list (map sc_points
       (filter (\<lambda>r. sc_challenge_id r = challenge_id \<and> sc_user_id r = u) (scores s)))"

definition active_players :: "bot \<Rightarrow> int \<Rightarrow> int set" where
  "active_players s challenge_id =
     Set.filter (\<lambda>u. 0 < participant_total s challenge_id u) (participants s challenge_id)"

definition mean_of_active_totals :: "bot \<Rightarrow> int \<Rightarrow> real" where
  "mean_of_active_totals s challenge_id =
     real_of_int (sum (participant_total s challenge_id) (active_players s challenge_id))
       / real (card (active_players s challenge_id))"

subsection \<open>Notions used in the statements about the tick\<close>

definition event_kinds :: "string set" where
  "event_kinds = {''start'', ''ending'', ''final_results''}"

text \<open>Between s and s' exactly one message was sent, for challenge c and event k; its
  marker was absent in s and is present in s'.\<close>

definition emitted :: "bot \<Rightarrow> bot \<Rightarrow> int \<Rightarrow> string \<Rightarrow> bool" where
  "emitted s s' c k = (outbox s' = outbox s @ [(c, k)]
         \<and> \<not> has_notification_been_sent s c k \<and> has_notification_been_sent s' c k)"

text \<open>The state after the status reconciliation at the head of the tick.\<close>

definition reconciled :: "bot \<Rightarrow> challenge \<Rightarrow> string option \<Rightarrow> bot" where
  "reconciled s c actual_status =
     (if select_star (layout s) c ! 5 \<noteq> sql_of_str actual_status
      then update_challenge_status s (ch_id c) (sql_of_str actual_status) else s)"

definition active_rows :: "bot \<Rightarrow> challenge list" where
  "active_rows s = filter (\<lambda>c. in_active_set (ch_status c)) (challenges s)"

section \<open>Example data\<close>

definition january_challenge :: challenge where
  "january_challenge =
     \<lparr>ch_id = 1, ch_description = SText ''Walk every day'',
      ch_scoring_system = SText ''1 point per km'', ch_challenge_type = SText ''points'',
      ch_type_description = SText ''Points-based challenge where users earn points for activities'',
      ch_start_date = SText ''2025-01-03'', ch_end_date = SText ''2025-01-31'',
      ch_status = SText ''upcoming'', ch_created_by = SInt 7,
      ch_created_at = SText ''2025-01-01 10:00:00''\<rparr>"

definition far_future_challenge :: challenge where
  "far_future_challenge =
     january_challenge\<lparr>ch_start_date := SText ''2025-06-01'', ch_end_date := SText ''9999-12-31''\<rparr>"

definition february_state :: bot where
  "february_state =
     \<lparr>layout = Migrated,
      challenges = [january_challenge\<lparr>ch_status := SText ''grace_period''\<rparr>],
      challenges_seq = 1,
      scores =
        [\<lparr>sc_user_id = 7, sc_date = (2025, 1, 3), sc_points = 100, sc_challenge_id = 1\<rparr>,
         \<lparr>sc_user_id = 7, sc_date = (2025, 2, 1), sc_points = 50, sc_challenge_id = 1\<rparr>],
      challenge_notifications =
        [\<lparr>nt_challenge_id = 1, nt_notification_type = ''ending'',
          nt_sent_date = ''2025-02-01 10:00:00''\<rparr>],
      baseline_values = [],
      users = [\<lparr>us_telegram_id = 7, us_registered_username = SText ''anna''\<rparr>],
      outbox = [(1, ''ending'')]\<rparr>"


definition weight_challenge :: challenge where
  "weight_challenge =
     \<lparr>ch_id = 1, ch_description = SText ''Lose weight in March'',
      ch_scoring_system = SText ''Weight in kg'', ch_challenge_type = SText ''change'',
      ch_type_description = SText ''Change-based challenge tracking percentage improvements'',
      ch_start_date = SText ''2025-03-01'', ch_end_date = SText ''2025-03-31'',
      ch_status = SText ''upcoming'', ch_created_by = SInt 7,
      ch_created_at = SText ''2025-02-20 10:00:00''\<rparr>"

definition march_state :: bot where
  "march_state =
     \<lparr>layout = Declared, challenges = [weight_challenge], challenges_seq = 1, scores = [],
      challenge_notifications = [], baseline_values = [],
      users = [\<lparr>us_telegram_id = 7, us_registered_username = SText ''anna''\<rparr>],
      outbox = []\<rparr>"

text \<open>The morning of 2 February 2025, 08:00, and 15 January 2025, 12:00.\<close>

definition february_morning :: clock where
  "february_morning = ((2025, 2, 2), 8 * 3600 * us_per_second)"


text \<open>Totals A: 100, B: 0, C: -5 (the example of the specification) and totals A: 1,
  B: 2, for challenge 1.\<close>

definition spec_totals_state :: bot where
  "spec_totals_state =
     february_state\<lparr>scores :=
       [\<lparr>sc_user_id = 1, sc_date = (2025, 1, 3), sc_points = 60, sc_challenge_id = 1\<rparr>,
        \<lparr>sc_user_id = 2, sc_date = (2025, 1, 3), sc_points = 0, sc_challenge_id = 1\<rparr>,
        \<lparr>sc_user_id = 3, sc_date = (2025, 1, 3), sc_points = - 5, sc_challenge_id = 1\<rparr>,
        \<lparr>sc_user_id = 1, sc_date = (2025, 1, 4), sc_points = 40, sc_challenge_id = 1\<rparr>]\<rparr>"

definition one_two_state :: bot where
  "one_two_state =
     february_state\<lparr>scores :=
       [\<lparr>sc_user_id = 1, sc_date = (2025, 1, 3), sc_points = 1, sc_challenge_id = 1\<rparr>,
        \<lparr>sc_user_id = 2, sc_date = (2025, 1, 3), sc_points = 2, sc_challenge_id = 1\<rparr>]\<rparr>"








section \<open>Facts about dates\<close>

lemma days_in_month_pos: "0 < days_in_month y m"
  by (simp add: days_in_month_def)

lemma days_before_month_nonneg: "0 \<le> days_before_month y m"
  unfolding days_before_month_def
  by (rule sum_list_nonneg) (auto simp: days_in_month_def)

lemma linear_nonneg:
  fixes z a b c :: int
  shows "0 \<le> z \<Longrightarrow> c \<le> z \<Longrightarrow> 0 \<le> a \<Longrightarrow> 0 \<le> b \<Longrightarrow> 0 \<le> z * 365 + a - c + b"
  by linarith

lemma days_before_year_nonneg:
  assumes "1 \<le> y"
  shows "0 \<le> days_before_year y"
proof -
  have z: "0 \<le> y - 1" using assms by simp
  then have "(y - 1) div 100 \<le> y - 1" "0 \<le> (y - 1) div 4" "0 \<le> (y - 1) div 400"
    by simp_all
  with z show ?thesis
    unfolding days_before_year_def by (intro linear_nonneg)
qed

lemma ymd2ord_pos: "valid_date dt \<Longrightarrow> 1 \<le> ymd2ord dt"
  using days_before_month_nonneg days_before_year_nonneg
  by (cases dt) (auto simp: valid_date_def ymd2ord_def intro!: add_increasing)

lemma strptime_ymd_valid: "strptime_ymd s = Inr dt \<Longrightarrow> valid_date dt"
  by (auto simp: strptime_ymd_def split: option.splits prod.splits if_splits)

lemma max_ordinal_eq: "ymd2ord (9999, 12, 31) = max_ordinal"
  by code_simp

section \<open>Stored dates read back\<close>

lemma zero_char: "CHR ''0'' = char_of (48::nat)"
  by code_simp

lemma digit_char_props:
  assumes "n < 10"
  shows "is_digit (digit_char n)" and "digit_val (digit_char n) = int n"
    and "digit_char n = CHR ''0'' \<longleftrightarrow> n = 0"
  using assms
  by (auto simp: is_digit_def digit_val_def digit_char_def zero_char char_of_quasi_inj
        take_bit_eq_mod)

lemma digit_char_const:
  "digit_char 0 = CHR ''0''" "digit_char 1 = CHR ''1''" "digit_char 2 = CHR ''2''"
  "digit_char 3 = CHR ''3''" "digit_char 4 = CHR ''4''" "digit_char 5 = CHR ''5''"
  "digit_char 6 = CHR ''6''" "digit_char 7 = CHR ''7''" "digit_char 8 = CHR ''8''"
  "digit_char 9 = CHR ''9''" "digit_char (Suc 0) = CHR ''1''"
  by code_simp+

lemma str_nat_1: "n < 10 \<Longrightarrow> str_nat n = [digit_char n]"
  by (simp add: str_nat.simps)

lemma str_nat_2:
  "10 \<le> n \<Longrightarrow> n < 100 \<Longrightarrow> str_nat n = [digit_char (n div 10), digit_char (n mod 10)]"
  by (subst str_nat.simps) (simp add: str_nat_1)

lemma str_nat_3: "100 \<le> n \<Longrightarrow> n < 1000 \<Longrightarrow>
   str_nat n = [digit_char (n div 100), digit_char (n div 10 mod 10), digit_char (n mod 10)]"
  by (subst str_nat.simps) (simp add: str_nat_2 div_mult2_eq [symmetric])

lemma str_nat_4: "1000 \<le> n \<Longrightarrow> n < 10000 \<Longrightarrow>
   str_nat n = [digit_char (n div 1000), digit_char (n div 100 mod 10),
                digit_char (n div 10 mod 10), digit_char (n mod 10)]"
  by (subst str_nat.simps) (simp add: str_nat_3 div_mult2_eq [symmetric])

lemma zfill_short:
  "zfill 4 [a] = [CHR ''0'', CHR ''0'', CHR ''0'', a]"
  "zfill 4 [a, b] = [CHR ''0'', CHR ''0'', a, b]"
  "zfill 4 [a, b, c] = [CHR ''0'', a, b, c]"
  "zfill 4 [a, b, c, d] = [a, b, c, d]"
  "zfill 2 [a] = [CHR ''0'', a]"
  "zfill 2 [a, b] = [a, b]"
  by (simp_all add: zfill_def numeral_eq_Suc)

lemma zfill_4:
  assumes "n < 10000"
  shows "zfill 4 (str_nat n) = [digit_char (n div 1000), digit_char (n div 100 mod 10),
                digit_char (n div 10 mod 10), digit_char (n mod 10)]"
proof -
  consider "n < 10" | "10 \<le> n" "n < 100" | "100 \<le> n" "n < 1000" | "1000 \<le> n"
    by linarith
  then show ?thesis
  proof cases
    case 1
    then show ?thesis
      by (simp add: str_nat_1 zfill_short digit_char_const(1))
  next
    case 2
    then show ?thesis
      by (simp add: str_nat_2 zfill_short digit_char_const(1))
  next
    case 3
    then show ?thesis
      by (simp add: str_nat_3 zfill_short digit_char_const(1))
  next
    case 4
    with assms show ?thesis
      by (simp add: str_nat_4 zfill_short)
  qed
qed

lemma digits_combine:
  fixes n q1 q2 q3 r0 r1 r2 :: nat
  shows "n = 10 * q1 + r0 \<Longrightarrow> q1 = 10 * q2 + r1 \<Longrightarrow> q2 = 10 * q3 + r2
    \<Longrightarrow> q3 * 1000 + r2 * 100 + r1 * 10 + r0 = n"
  by simp

lemma take_year_zfill:
  assumes "0 \<le> y" "y < 10000"
  shows "take_year (zfill 4 (str_int y) @ rest) = Some (y, rest)"
proof -
  let ?n = "nat y"
  have n: "?n < 10000" using assms by simp
  have d: "?n div 1000 < 10" "?n div 100 mod 10 < 10" "?n div 10 mod 10 < 10" "?n mod 10 < 10"
    using n by simp_all
  have "?n = 10 * (?n div 10) + ?n mod 10" by simp
  moreover have "?n div 10 = 10 * (?n div 100) + ?n div 10 mod 10"
    using mult_div_mod_eq [of 10 "?n div 10"] by (simp add: div_mult2_eq [symmetric])
  moreover have "?n div 100 = 10 * (?n div 1000) + ?n div 100 mod 10"
    using mult_div_mod_eq [of 10 "?n div 100"] by (simp add: div_mult2_eq [symmetric])
  ultimately have "?n div 1000 * 1000 + ?n div 100 mod 10 * 100 + ?n div 10 mod 10 * 10
      + ?n mod 10 = ?n"
    by (rule digits_combine)
  then have "int (?n div 1000 * 1000 + ?n div 100 mod 10 * 100 + ?n div 10 mod 10 * 10
                 + ?n mod 10) = int ?n"
    by (rule arg_cong)
  with assms(1)
  have v: "int (?n div 1000) * 1000 + int (?n div 100 mod 10) * 100
             + int (?n div 10 mod 10) * 10 + int (?n mod 10) = y"
    by simp
  show ?thesis
    using assms(1) v by (simp add: str_int_def zfill_4 [OF n] digit_char_props [OF d(1)]
        digit_char_props [OF d(2)] digit_char_props [OF d(3)] digit_char_props [OF d(4)])
qed

lemma zfill_2:
  assumes "n < 100"
  shows "zfill 2 (str_nat n) = [digit_char (n div 10), digit_char (n mod 10)]"
proof (cases "n < 10")
  case True
  then show ?thesis by (simp add: str_nat_1 zfill_short digit_char_const(1))
next
  case False
  with assms show ?thesis by (simp add: str_nat_2 zfill_short)
qed

lemma two_digits:
  assumes "0 \<le> k" "k < 100"
  shows "zfill 2 (str_int k) = [digit_char (nat k div 10), digit_char (nat k mod 10)]"
  using assms by (simp add: str_int_def zfill_2)

lemma take_month_zfill:
  assumes "1 \<le> m" "m \<le> 12"
  shows "take_month (zfill 2 (str_int m) @ rest) = Some (m, rest)"
proof -
  from assms have "m = 1 \<or> m = 2 \<or> m = 3 \<or> m = 4 \<or> m = 5 \<or> m = 6 \<or> m = 7 \<or> m = 8
      \<or> m = 9 \<or> m = 10 \<or> m = 11 \<or> m = 12"
    by arith
  then show ?thesis
    by (elim disjE) (simp_all add: two_digits digit_char_const is_digit_def digit_val_def)
qed

lemma take_day_zfill:
  assumes "1 \<le> d" "d \<le> 31"
  shows "take_day (zfill 2 (str_int d)) = Some (d, [])"
proof -
  from assms have "d = 1 \<or> d = 2 \<or> d = 3 \<or> d = 4 \<or> d = 5 \<or> d = 6 \<or> d = 7 \<or> d = 8
      \<or> d = 9 \<or> d = 10 \<or> d = 11 \<or> d = 12 \<or> d = 13 \<or> d = 14 \<or> d = 15 \<or> d = 16
      \<or> d = 17 \<or> d = 18 \<or> d = 19 \<or> d = 20 \<or> d = 21 \<or> d = 22 \<or> d = 23 \<or> d = 24
      \<or> d = 25 \<or> d = 26 \<or> d = 27 \<or> d = 28 \<or> d = 29 \<or> d = 30 \<or> d = 31"
    by arith
  then show ?thesis
    by (elim disjE) (simp_all add: two_digits digit_char_const is_digit_def digit_val_def)
qed

lemma days_in_month_le: "days_in_month y m \<le> 31"
  by (simp add: days_in_month_def)

text \<open>The text stored for a date of the calendar reads back as that date.\<close>

lemma strptime_ymd_isoformat:
  assumes "valid_date dt"
  shows "strptime_ymd (isoformat dt) = Inr dt"
proof -
  obtain y m d where dt: "dt = (y, m, d)" by (cases dt)
  from assms dt have y: "0 \<le> y" "y < 10000" and m: "1 \<le> m" "m \<le> 12"
    and d: "1 \<le> d" "d \<le> 31"
    using days_in_month_le [of y m] by (auto simp: valid_date_def)
  have "strptime_ymd (zfill 4 (str_int y) @ CHR ''-'' # zfill 2 (str_int m)
          @ CHR ''-'' # zfill 2 (str_int d)) = Inr (y, m, d)"
    using assms dt
    by (simp add: strptime_ymd_def take_year_zfill [OF y] take_month_zfill [OF m]
          take_day_zfill [OF d])
  then show ?thesis by (simp add: dt isoformat_def)
qed

lemma isoformat_examples:
  "isoformat (2025, 1, 3) = ''2025-01-03''"
  "isoformat (2025, 1, 31) = ''2025-01-31''"
  "isoformat (2025, 6, 1) = ''2025-06-01''"
  "isoformat (9999, 12, 31) = ''9999-12-31''"
  by (simp_all add: isoformat_def str_int_def zfill_4 zfill_2 digit_char_const)

section \<open>The status resolver\<close>

lemma end_of_day_in_range:
  assumes "valid_date ed" "ymd2ord ed < max_ordinal"
  shows "dt_add (midnight ed) us_per_day = Inr (midnight ed + us_per_day)"
    and "dt_add (midnight ed + us_per_day) (- us_per_second) = Inr (end_instant ed)"
    and "dt_add (end_instant ed) us_per_day = Inr (grace_instant ed)"
  using ymd2ord_pos [OF assms(1)] assms(2)
  by (simp_all add: dt_add_def midnight_def end_instant_def grace_instant_def
        datetime_min_def datetime_max_def max_ordinal_def us_per_day_def us_per_second_def)

lemma unpack_dates_width:
  "length row = 8 \<or> length row = 10 \<Longrightarrow> unpack_dates row = Inr (row ! 3, row ! 4)"
  by (auto simp: unpack_dates_def)

text \<open>The resolver on any row whose date cells read as dates.\<close>

lemma resolver_phases_parsed:
  assumes w: "length row = 8 \<or> length row = 10"
    and s: "strptime_ymd (py_str (row ! 3)) = Inr sd"
    and e: "strptime_ymd (py_str (row ! 4)) = Inr ed"
    and r: "ymd2ord ed < ymd2ord (9999, 12, 31)"
  shows "resolved_status (get_challenge_status now (Some row)) =
     Inr (Some (if now < start_instant sd then ''upcoming''
                else if now \<le> end_instant ed then ''active''
                else if now \<le> grace_instant ed then ''grace_period''
                else ''ended''))"
proof -
  have ne: "row \<noteq> []" using w by auto
  have v: "valid_date ed" using e by (rule strptime_ymd_valid)
  have m: "ymd2ord ed < max_ordinal" using r by (simp add: max_ordinal_eq)
  note rng = end_of_day_in_range [OF v m]
  show ?thesis
    by (simp add: get_challenge_status_def ne unpack_dates_width [OF w] s e rng
          resolved_status_def start_instant_def Let_def)
qed

text \<open>
  C1 (as amended). For every start date sd and every end date ed of the calendar with ed
  earlier than 9999-12-31, stored as YYYY-MM-DD in the date cells of a row of 8 or 10
  cells, the resolver returns for every current time: upcoming when now is before 00:00
  of sd; active from then up to and including 23:59:59 of ed; grace_period after that up
  to and including the instant 24 hours later; ended for every later now.
\<close>

theorem get_challenge_status_four_phases:
  assumes w: "length row = 8 \<or> length row = 10"
    and s: "valid_date sd" "row ! 3 = SText (isoformat sd)"
    and e: "valid_date ed" "row ! 4 = SText (isoformat ed)"
    and r: "ymd2ord ed < ymd2ord (9999, 12, 31)"
  shows "resolved_status (get_challenge_status now (Some row)) =
     Inr (Some (if now < start_instant sd then ''upcoming''
                else if now \<le> end_instant ed then ''active''
                else if now \<le> grace_instant ed then ''grace_period''
                else ''ended''))"
proof -
  have "strptime_ymd (py_str (row ! 3)) = Inr sd"
    using s by (simp add: strptime_ymd_isoformat)
  moreover have "strptime_ymd (py_str (row ! 4)) = Inr ed"
    using e by (simp add: strptime_ymd_isoformat)
  ultimately show ?thesis
    using w r by (intro resolver_phases_parsed)
qed

text \<open>Witness: the January challenge one second after 23:59:59 of its end date is in its
  grace period.\<close>

theorem get_challenge_status_four_phases_witness:
  "(length (select_star Migrated january_challenge) = 8
      \<or> length (select_star Migrated january_challenge) = 10)
   \<and> valid_date (2025, 1, 3) \<and> valid_date (2025, 1, 31)
   \<and> select_star Migrated january_challenge ! 3 = SText (isoformat (2025, 1, 3))
   \<and> select_star Migrated january_challenge ! 4 = SText (isoformat (2025, 1, 31))
   \<and> ymd2ord (2025, 1, 31) < ymd2ord (9999, 12, 31)
   \<and> resolved_status (get_challenge_status (end_instant (2025, 1, 31) + us_per_second)
        (Some (select_star Migrated january_challenge))) = Inr (Some ''grace_period'')"
proof -
  let ?row = "select_star Migrated january_challenge"
  have h1: "length ?row = 8 \<or> length ?row = 10" by simp
  have h2: "valid_date (2025, 1, 3)" "?row ! 3 = SText (isoformat (2025, 1, 3))"
    by (code_simp, simp add: january_challenge_def isoformat_examples)
  have h3: "valid_date (2025, 1, 31)" "?row ! 4 = SText (isoformat (2025, 1, 31))"
    by (code_simp, simp add: january_challenge_def isoformat_examples)
  have h4: "ymd2ord (2025, 1, 31) < ymd2ord (9999, 12, 31)" by code_simp
  have c1: "\<not> end_instant (2025, 1, 31) + us_per_second < start_instant (2025, 1, 3)"
    by code_simp
  have c2: "\<not> end_instant (2025, 1, 31) + us_per_second \<le> end_instant (2025, 1, 31)"
    by (simp add: us_per_second_def)
  have c3: "end_instant (2025, 1, 31) + us_per_second \<le> grace_instant (2025, 1, 31)"
    by (simp add: grace_instant_def us_per_second_def us_per_day_def)
  from get_challenge_status_four_phases [OF h1 h2 h3 h4,
      of "end_instant (2025, 1, 31) + us_per_second"] c1 c2 c3
  have "resolved_status (get_challenge_status (end_instant (2025, 1, 31) + us_per_second)
          (Some ?row)) = Inr (Some ''grace_period'')"
    by simp
  with h1 h2 h3 h4 show ?thesis by blast
qed

text \<open>Counterexample to C1 as stated: with the end date 9999-12-31 and a current time
  before the start date, the resolver raises OverflowError instead of returning
  upcoming (adding one day to the end date leaves the range of datetime).\<close>

theorem get_challenge_status_overflow_counterexample:
  "valid_date (2025, 6, 1) \<and> valid_date (9999, 12, 31)
   \<and> select_star Migrated far_future_challenge ! 3 = SText (isoformat (2025, 6, 1))
   \<and> select_star Migrated far_future_challenge ! 4 = SText (isoformat (9999, 12, 31))
   \<and> midnight (2025, 1, 1) < start_instant (2025, 6, 1)
   \<and> get_challenge_status (midnight (2025, 1, 1))
        (Some (select_star Migrated far_future_challenge)) = Inl OverflowError"
proof -
  have "valid_date (2025, 6, 1)" "valid_date (9999, 12, 31)"
    by code_simp+
  moreover have "select_star Migrated far_future_challenge ! 3 = SText (isoformat (2025, 6, 1))"
    "select_star Migrated far_future_challenge ! 4 = SText (isoformat (9999, 12, 31))"
    by (simp_all add: far_future_challenge_def january_challenge_def isoformat_examples)
  moreover have "midnight (2025, 1, 1) < start_instant (2025, 6, 1)"
    by code_simp
  moreover have "get_challenge_status (midnight (2025, 1, 1))
        (Some (select_star Migrated far_future_challenge)) = Inl OverflowError"
    by code_simp
  ultimately show ?thesis by blast
qed

text \<open>
  C3. A row in the column order of the CREATE TABLE statement, with the challenge type
  the creation flow writes (points or change), makes the resolver raise ValueError at
  every current time: the challenge type lands in the start-date slot. And whenever the
  resolver returns a status for a non-empty row, the row has 8 or 10 cells and its fourth
  and fifth cells read as dates, which is the column order the resolver assumes.
\<close>

theorem get_challenge_status_declared_layout:
  "(ch_challenge_type c = SText ''points'' \<or> ch_challenge_type c = SText ''change''
      \<longrightarrow> get_challenge_status now (Some (select_star Declared c)) = Inl ValueError)
   \<and> (row \<noteq> [] \<and> get_challenge_status now' (Some row) = Inr r
      \<longrightarrow> (length row = 8 \<or> length row = 10)
          \<and> (\<exists>sd ed. strptime_ymd (py_str (row ! 3)) = Inr sd
                    \<and> strptime_ymd (py_str (row ! 4)) = Inr ed))"
proof (intro conjI impI)
  assume t: "ch_challenge_type c = SText ''points'' \<or> ch_challenge_type c = SText ''change''"
  have p: "strptime_ymd ''points'' = Inl ValueError" "strptime_ymd ''change'' = Inl ValueError"
    by code_simp+
  from t show "get_challenge_status now (Some (select_star Declared c)) = Inl ValueError"
    by (auto simp: get_challenge_status_def unpack_dates_def p)
next
  assume a: "row \<noteq> [] \<and> get_challenge_status now' (Some row) = Inr r"
  then have u: "unpack_dates row = Inr (row ! 3, row ! 4)" and w: "length row = 8 \<or> length row = 10"
    by (auto simp: get_challenge_status_def unpack_dates_def split: if_splits sum.splits)
  from w show "length row = 8 \<or> length row = 10" .
  from a u show "\<exists>sd ed. strptime_ymd (py_str (row ! 3)) = Inr sd
                    \<and> strptime_ymd (py_str (row ! 4)) = Inr ed"
    by (auto simp: get_challenge_status_def split: if_splits sum.splits)
qed

text \<open>Witness: the January challenge, read in the declared order, raises; read in the
  migrated order on New Year's Day it is upcoming, and its fourth and fifth cells are its
  dates.\<close>

theorem get_challenge_status_declared_layout_witness:
  "(ch_challenge_type january_challenge = SText ''points''
      \<or> ch_challenge_type january_challenge = SText ''change'')
   \<and> get_challenge_status (midnight (2025, 1, 1))
        (Some (select_star Declared january_challenge)) = Inl ValueError
   \<and> select_star Migrated january_challenge \<noteq> []
   \<and> get_challenge_status (midnight (2025, 1, 1))
        (Some (select_star Migrated january_challenge))
       = Inr (Some ''upcoming'', Some ''Starts in 2 days'')
   \<and> (length (select_star Migrated january_challenge) = 8
        \<or> length (select_star Migrated january_challenge) = 10)
   \<and> (\<exists>sd ed. strptime_ymd (py_str (select_star Migrated january_challenge ! 3)) = Inr sd
          \<and> strptime_ymd (py_str (select_star Migrated january_challenge ! 4)) = Inr ed)"
proof -
  let ?now = "midnight (2025, 1, 1)"
  let ?row = "select_star Migrated january_challenge"
  have h1: "ch_challenge_type january_challenge = SText ''points''
      \<or> ch_challenge_type january_challenge = SText ''change''"
    by (simp add: january_challenge_def)
  have h2: "?row \<noteq> []" by simp
  have h3: "get_challenge_status ?now (Some ?row)
       = Inr (Some ''upcoming'', Some ''Starts in 2 days'')"
    by code_simp
  note t = get_challenge_status_declared_layout [of january_challenge ?now ?row ?now
      "(Some ''upcoming'', Some ''Starts in 2 days'')"]
  from t h1 have c1: "get_challenge_status ?now (Some (select_star Declared january_challenge))
      = Inl ValueError"
    by blast
  from t h2 h3 have c2: "(length ?row = 8 \<or> length ?row = 10)
      \<and> (\<exists>sd ed. strptime_ymd (py_str (?row ! 3)) = Inr sd
             \<and> strptime_ymd (py_str (?row ! 4)) = Inr ed)"
    by blast
  from h1 c1 h2 h3 c2 show ?thesis by blast
qed

section \<open>The notification gate and the scheduler tick\<close>

lemma outbox_simps [simp]:
  "outbox (update_challenge_status s c v) = outbox s"
  "outbox (mark_notification_sent ts s c k) = outbox s"
  "outbox (send_challenge_notification s c k) = outbox s @ [(c, k)]"
  by (simp_all add: update_challenge_status_def mark_notification_sent_def
        send_challenge_notification_def)

lemma challenges_simps [simp]:
  "challenges (mark_notification_sent ts s c k) = challenges s"
  "challenges (send_challenge_notification s c k) = challenges s"
  "challenges (update_challenge_status s c v) =
     map (\<lambda>x. if ch_id x = c then x\<lparr>ch_status := v\<rparr> else x) (challenges s)"
  by (simp_all add: update_challenge_status_def mark_notification_sent_def
        send_challenge_notification_def)

lemma has_simps [simp]:
  "has_notification_been_sent (update_challenge_status s c v) = has_notification_been_sent s"
  "has_notification_been_sent (send_challenge_notification s c k) = has_notification_been_sent s"
  by (simp_all add: fun_eq_iff has_notification_been_sent_def update_challenge_status_def
        send_challenge_notification_def)

lemma has_mark [simp]:
  "has_notification_been_sent (mark_notification_sent ts s c k) c k"
  by (simp add: has_notification_been_sent_def mark_notification_sent_def notification_key_def)

lemma reconciled_simps [simp]:
  "outbox (reconciled s c a) = outbox s"
  "has_notification_been_sent (reconciled s c a) = has_notification_been_sent s"
  by (simp_all add: reconciled_def)

lemma newest_member: "newest cs = Some c \<Longrightarrow> c \<in> set cs"
  by (induction cs arbitrary: c) (auto split: option.splits if_splits)

lemma newest_Nil: "newest cs = None \<longleftrightarrow> cs = []"
  by (cases cs) (auto split: option.splits)

lemma current_challenge_record_active:
  "current_challenge_record s = Some c \<Longrightarrow> c \<in> set (active_rows s)"
  unfolding current_challenge_record_def active_rows_def by (rule newest_member)

text \<open>The tick after its first two steps, as a function of the reconciled state.\<close>

lemma tick_unfold:
  assumes "current_challenge_record s = Some c"
    and "get_challenge_status now (Some (select_star (layout s) c)) = Inr (a, m)"
  shows "check_and_send_notifications now ts s =
      (if a = Some ''active'' \<and> \<not> has_notification_been_sent s (ch_id c) ''start''
        then
          (case strptime_ymd (py_str (select_star (layout s) c ! 5)) of
             Inl e \<Rightarrow> (reconciled s c a, Raised e)
           | Inr start_date \<Rightarrow>
          (case strptime_ymd (py_str (select_star (layout s) c ! 6)) of
             Inl e \<Rightarrow> (reconciled s c a, Raised e)
           | Inr end_date \<Rightarrow>
             (mark_notification_sent ts
                (send_challenge_notification (reconciled s c a) (ch_id c) ''start'')
                (ch_id c) ''start'',
              Returned)))
        else if a = Some ''grace_period''
           \<and> \<not> has_notification_been_sent s (ch_id c) ''ending''
        then
          (mark_notification_sent ts
             (send_challenge_notification (reconciled s c a) (ch_id c) ''ending'')
             (ch_id c) ''ending'',
           Returned)
        else if a = Some ''ended''
           \<and> \<not> has_notification_been_sent s (ch_id c) ''final_results''
        then
          (update_challenge_status
             (mark_notification_sent ts
                (send_challenge_notification (reconciled s c a) (ch_id c) ''final_results'')
                (ch_id c) ''final_results'')
             (ch_id c) (SText ''completed''),
           Returned)
        else (reconciled s c a, Returned))"
proof -
  have h: "has_notification_been_sent
             (if select_star (layout s) c ! 5 \<noteq> sql_of_str a
              then update_challenge_status s (ch_id c) (sql_of_str a) else s)
           = has_notification_been_sent s"
    by simp
  show ?thesis
    unfolding check_and_send_notifications_def Let_def reconciled_def
    by (simp only: assms h option.case sum.case prod.case)
qed

text \<open>What a tick can do to the outbox: nothing, or one message whose marker was absent
  before and is present after.\<close>

lemma tick_cases:
  "(outbox (fst (check_and_send_notifications now ts s)) = outbox s)
   \<or> (\<exists>c k. k \<in> event_kinds \<and> emitted s (fst (check_and_send_notifications now ts s)) c k)"
proof (cases "current_challenge_record s")
  case None
  then show ?thesis by (simp add: check_and_send_notifications_def)
next
  case (Some c)
  show ?thesis
  proof (cases "get_challenge_status now (Some (select_star (layout s) c))")
    case (Inl e)
    with Some show ?thesis by (simp add: check_and_send_notifications_def)
  next
    case (Inr p)
    obtain a m where p: "p = (a, m)" by (cases p)
    note t = tick_unfold [OF Some Inr [unfolded p], of ts]
    have ev: "''start'' \<in> event_kinds" "''ending'' \<in> event_kinds"
      "''final_results'' \<in> event_kinds"
      by (simp_all add: event_kinds_def)
    consider (st) "a = Some ''active'' \<and> \<not> has_notification_been_sent s (ch_id c) ''start''"
      | (en) "\<not> (a = Some ''active'' \<and> \<not> has_notification_been_sent s (ch_id c) ''start'')"
             "a = Some ''grace_period'' \<and> \<not> has_notification_been_sent s (ch_id c) ''ending''"
      | (fi) "\<not> (a = Some ''active'' \<and> \<not> has_notification_been_sent s (ch_id c) ''start'')"
             "\<not> (a = Some ''grace_period'' \<and> \<not> has_notification_been_sent s (ch_id c) ''ending'')"
             "a = Some ''ended'' \<and> \<not> has_notification_been_sent s (ch_id c) ''final_results''"
      | (no) "\<not> (a = Some ''active'' \<and> \<not> has_notification_been_sent s (ch_id c) ''start'')"
             "\<not> (a = Some ''grace_period'' \<and> \<not> has_notification_been_sent s (ch_id c) ''ending'')"
             "\<not> (a = Some ''ended'' \<and> \<not> has_notification_been_sent s (ch_id c) ''final_results'')"
      by blast
    then show ?thesis
    proof cases
      case st
      show ?thesis
      proof (cases "strptime_ymd (py_str (select_star (layout s) c ! 5))")
        case (Inl e)
        with st t show ?thesis by simp
      next
        case sd: (Inr sd)
        show ?thesis
        proof (cases "strptime_ymd (py_str (select_star (layout s) c ! 6))")
          case (Inl e)
          with st sd t show ?thesis by simp
        next
          case (Inr ed)
          with st sd t
          have "emitted s (fst (check_and_send_notifications now ts s)) (ch_id c) ''start''"
            by (simp add: emitted_def)
          with ev show ?thesis by blast
        qed
      qed
    next
      case en
      with t have "emitted s (fst (check_and_send_notifications now ts s)) (ch_id c) ''ending''"
        by (simp add: emitted_def)
      with ev show ?thesis by blast
    next
      case fi
      with t
      have "emitted s (fst (check_and_send_notifications now ts s)) (ch_id c) ''final_results''"
        by (simp add: emitted_def)
      with ev show ?thesis by blast
    next
      case no
      with t show ?thesis by simp
    qed
  qed
qed

text \<open>A tick that sent the final results ran the last branch.\<close>

lemma tick_final_results:
  assumes "outbox (fst (check_and_send_notifications now ts s)) = outbox s @ [(cid, ''final_results'')]"
  shows "\<exists>c a. current_challenge_record s = Some c \<and> ch_id c = cid
           \<and> fst (check_and_send_notifications now ts s) =
               update_challenge_status
                 (mark_notification_sent ts
                    (send_challenge_notification (reconciled s c a) cid ''final_results'')
                    cid ''final_results'')
                 cid (SText ''completed'')"
proof (cases "current_challenge_record s")
  case None
  with assms show ?thesis by (simp add: check_and_send_notifications_def)
next
  case (Some c)
  show ?thesis
  proof (cases "get_challenge_status now (Some (select_star (layout s) c))")
    case (Inl e)
    with Some assms show ?thesis by (simp add: check_and_send_notifications_def)
  next
    case (Inr p)
    obtain a m where p: "p = (a, m)" by (cases p)
    note t = tick_unfold [OF Some Inr [unfolded p], of ts]
    from assms t have "ch_id c = cid \<and> fst (check_and_send_notifications now ts s) =
               update_challenge_status
                 (mark_notification_sent ts
                    (send_challenge_notification (reconciled s c a) cid ''final_results'')
                    cid ''final_results'')
                 cid (SText ''completed'')"
      by (auto split: if_splits sum.splits)
    with Some show ?thesis by blast
  qed
qed

lemma completed_not_active: "\<not> in_active_set (SText ''completed'')"
  by (simp add: in_active_set_def)

lemma filter_active_completed:
  "filter (\<lambda>x. in_active_set (ch_status x))
     (map (\<lambda>x. if ch_id x = cid then x\<lparr>ch_status := SText ''completed''\<rparr> else x) xs)
   = filter (\<lambda>x. ch_id x \<noteq> cid) (filter (\<lambda>x. in_active_set (ch_status x)) xs)"
  by (induction xs) (simp_all add: completed_not_active)

lemma challenges_after_final:
  assumes "ch_id c = cid"
  shows "challenges (update_challenge_status
                 (mark_notification_sent ts
                    (send_challenge_notification (reconciled s c a) cid k) cid k)
                 cid (SText ''completed''))
         = map (\<lambda>x. if ch_id x = cid then x\<lparr>ch_status := SText ''completed''\<rparr> else x)
             (challenges s)"
  using assms by (simp add: reconciled_def comp_def)

lemma completed_rows:
  "list_all (\<lambda>x. ch_status x = v)
     (filter (\<lambda>x. ch_id x = c) (map (\<lambda>x. if ch_id x = c then x\<lparr>ch_status := v\<rparr> else x) xs))"
  by (induction xs) simp_all

lemma singleton_active:
  assumes "c \<in> set xs" "length xs \<le> 1"
  shows "xs = [c]"
  using assms by (cases xs) auto

text \<open>
  C4. Two ticks in succession (at any two times, in particular with no time passing)
  send at most one message per challenge and event kind. A tick sends nothing, or one
  message for one of the three events, whose marker was absent before the tick and is
  present after it. If a tick sent the final results of a challenge, every row with that
  id is persisted as completed, a following tick does not select that challenge, and,
  when no other challenge was in the active set, a following tick returns without
  changing anything.
\<close>

theorem check_and_send_notifications_at_most_once:
  fixes s :: bot and now1 now2 :: datetime and ts1 ts2 :: string
  defines "s1 \<equiv> fst (check_and_send_notifications now1 ts1 s)"
  defines "s2 \<equiv> fst (check_and_send_notifications now2 ts2 s1)"
  shows "count_list (outbox s2) (c, k) \<le> count_list (outbox s) (c, k) + 1
     \<and> (outbox s1 = outbox s \<or> (\<exists>c' k'. k' \<in> event_kinds \<and> emitted s s1 c' k'))
     \<and> (outbox s1 = outbox s @ [(c, ''final_results'')] \<longrightarrow>
          list_all (\<lambda>x. ch_status x = SText ''completed'')
            (filter (\<lambda>x. ch_id x = c) (challenges s1))
        \<and> map_option ch_id (current_challenge_record s1) \<noteq> Some c
        \<and> (length (active_rows s) \<le> 1 \<longrightarrow>
             check_and_send_notifications now2 ts2 s1 = (s1, Returned)))"
proof (intro conjI impI)
  have a1: "outbox s1 = outbox s \<or> (\<exists>c' k'. k' \<in> event_kinds \<and> emitted s s1 c' k')"
    unfolding s1_def by (rule tick_cases)
  have a2: "outbox s2 = outbox s1 \<or> (\<exists>c' k'. k' \<in> event_kinds \<and> emitted s1 s2 c' k')"
    unfolding s2_def by (rule tick_cases)
  show "outbox s1 = outbox s \<or> (\<exists>c' k'. k' \<in> event_kinds \<and> emitted s s1 c' k')"
    by (rule a1)
  show "count_list (outbox s2) (c, k) \<le> count_list (outbox s) (c, k) + 1"
  proof -
    from a1 show ?thesis
    proof
      assume e: "outbox s1 = outbox s"
      from a2 show ?thesis
        by (auto simp: e emitted_def)
    next
      assume "\<exists>c' k'. k' \<in> event_kinds \<and> emitted s s1 c' k'"
      then obtain c' k' where e1: "outbox s1 = outbox s @ [(c', k')]"
        and m1: "has_notification_been_sent s1 c' k'"
        by (auto simp: emitted_def)
      from a2 show ?thesis
      proof
        assume "outbox s2 = outbox s1"
        with e1 show ?thesis by simp
      next
        assume "\<exists>c'' k''. k'' \<in> event_kinds \<and> emitted s1 s2 c'' k''"
        then obtain c'' k'' where e2: "outbox s2 = outbox s1 @ [(c'', k'')]"
          and m2: "\<not> has_notification_been_sent s1 c'' k''"
          by (auto simp: emitted_def)
        from m1 m2 have "(c', k') \<noteq> (c'', k'')" by auto
        with e1 e2 show ?thesis by auto
      qed
    qed
  qed
next
  assume f: "outbox s1 = outbox s @ [(c, ''final_results'')]"
  from tick_final_results [OF f [unfolded s1_def]]
  obtain x a where cur: "current_challenge_record s = Some x" and idx: "ch_id x = c"
    and s1_eq: "s1 = update_challenge_status
                 (mark_notification_sent ts1
                    (send_challenge_notification (reconciled s x a) c ''final_results'')
                    c ''final_results'')
                 c (SText ''completed'')"
    unfolding s1_def by blast
  have ch: "challenges s1
      = map (\<lambda>x. if ch_id x = c then x\<lparr>ch_status := SText ''completed''\<rparr> else x) (challenges s)"
    unfolding s1_eq by (rule challenges_after_final [OF idx])
  have act: "active_rows s1 = filter (\<lambda>x. ch_id x \<noteq> c) (active_rows s)"
    unfolding active_rows_def ch by (rule filter_active_completed)
  show "list_all (\<lambda>x. ch_status x = SText ''completed'') (filter (\<lambda>x. ch_id x = c) (challenges s1))"
    unfolding ch by (rule completed_rows)
  show "map_option ch_id (current_challenge_record s1) \<noteq> Some c"
  proof
    assume "map_option ch_id (current_challenge_record s1) = Some c"
    then obtain y where "current_challenge_record s1 = Some y" "ch_id y = c" by auto
    with current_challenge_record_active [of s1 y] act show False by auto
  qed
  assume one: "length (active_rows s) \<le> 1"
  from current_challenge_record_active [OF cur] one have "active_rows s = [x]"
    by (rule singleton_active)
  with act idx have "active_rows s1 = []" by simp
  then have "current_challenge_record s1 = None"
    by (simp add: current_challenge_record_def active_rows_def)
  then show "check_and_send_notifications now2 ts2 s1 = (s1, Returned)"
    by (simp add: check_and_send_notifications_def)
qed

text \<open>Witness: in the February state the challenge ended on 31 January and only the
  ending reminder has been sent; the tick at midnight of 2 February sends the final
  results, and a second tick at the same instant changes nothing.\<close>

theorem check_and_send_notifications_at_most_once_witness:
  "outbox (fst (check_and_send_notifications (midnight (2025, 2, 2)) ''2025-02-01 22:00:00''
                  february_state))
     = outbox february_state @ [(1, ''final_results'')]
   \<and> length (active_rows february_state) \<le> 1
   \<and> count_list (outbox (fst (check_and_send_notifications (midnight (2025, 2, 2))
          ''2025-02-01 22:00:00''
          (fst (check_and_send_notifications (midnight (2025, 2, 2)) ''2025-02-01 22:00:00''
                  february_state))))) (1, ''final_results'')
       \<le> count_list (outbox february_state) (1, ''final_results'') + 1
   \<and> list_all (\<lambda>x. ch_status x = SText ''completed'')
        (filter (\<lambda>x. ch_id x = 1)
           (challenges (fst (check_and_send_notifications (midnight (2025, 2, 2))
              ''2025-02-01 22:00:00'' february_state))))
   \<and> check_and_send_notifications (midnight (2025, 2, 2)) ''2025-02-01 22:00:00''
        (fst (check_and_send_notifications (midnight (2025, 2, 2)) ''2025-02-01 22:00:00''
                  february_state))
       = (fst (check_and_send_notifications (midnight (2025, 2, 2)) ''2025-02-01 22:00:00''
                  february_state), Returned)"
proof -
  have h1: "outbox (fst (check_and_send_notifications (midnight (2025, 2, 2))
                  ''2025-02-01 22:00:00'' february_state))
     = outbox february_state @ [(1, ''final_results'')]"
    by code_simp
  have h2: "length (active_rows february_state) \<le> 1"
    by code_simp
  note t = check_and_send_notifications_at_most_once
    [where s = february_state and ?now1.0 = "midnight (2025, 2, 2)"
       and ?now2.0 = "midnight (2025, 2, 2)" and ?ts1.0 = "''2025-02-01 22:00:00''"
       and ?ts2.0 = "''2025-02-01 22:00:00''" and c = 1 and k = "''final_results''"]
  from t h1 h2 show ?thesis by blast
qed

text \<open>Counterexample to C6 as stated: a second call at a later time replaces the stored
  row by one with the later sent_date.\<close>

theorem mark_notification_sent_counterexample:
  "challenge_notifications
     (mark_notification_sent ''2025-02-02 10:00:00''
        (mark_notification_sent ''2025-02-01 22:00:00'' february_state 1 ''final_results'')
        1 ''final_results'')
   \<noteq> challenge_notifications
     (mark_notification_sent ''2025-02-01 22:00:00'' february_state 1 ''final_results'')"
  by (simp add: mark_notification_sent_def february_state_def notification_key_def)

text \<open>
  C6 (as amended). mark_notification_sent is an insert-or-replace on the composite key
  (challenge, event kind): after a call the key is present, exactly one row holds it, and
  the rows of other keys are as before; a second call for the same key leaves the table as
  a single call at the time of the second would, so repeated calls change nothing but the
  sent_date, which is that of the latest call.
\<close>

theorem mark_notification_sent_replaces:
  "mark_notification_sent t2 (mark_notification_sent t1 s c k) c k
     = mark_notification_sent t2 s c k
   \<and> has_notification_been_sent (mark_notification_sent t1 s c k) c k
   \<and> filter (notification_key c k)
        (challenge_notifications (mark_notification_sent t1 s c k))
      = [\<lparr>nt_challenge_id = c, nt_notification_type = k, nt_sent_date = t1\<rparr>]
   \<and> filter (\<lambda>n. \<not> notification_key c k n)
        (challenge_notifications (mark_notification_sent t1 s c k))
      = filter (\<lambda>n. \<not> notification_key c k n) (challenge_notifications s)"
  by (simp add: mark_notification_sent_def notification_key_def
        has_notification_been_sent_def)

section \<open>The challenges in the active set\<close>






lemma update_status_ids:
  "map ch_id (map (\<lambda>x. if P x then x\<lparr>ch_status := w\<rparr> else x) xs) = map ch_id xs"
  by (induction xs) simp_all








section \<open>The score and baseline handlers\<close>



text \<open>add_score_confirm changes the scores table only when the current challenge resolves
  to active or grace_period.\<close>

lemma add_score_confirm_checks_status:
  assumes "scores (fst (add_score_confirm now s response user_id dates points_per_day)) \<noteq> scores s"
  shows "\<exists>c r. current_challenge_record s = Some c
           \<and> get_challenge_status (instant now) (Some (select_star (layout s) c)) = Inr r
           \<and> (fst r = Some ''active'' \<or> fst r = Some ''grace_period'')"
  using assms
  by (auto simp: add_score_confirm_def split: if_splits option.splits sum.splits prod.splits)



text \<open>
  C2 fails on the code. On the morning of 2 February the challenge of the February state
  resolves to ended (its persisted status is still grace_period, so it is the current
  challenge). add_score_confirm re-checks the status and refuses; remove_score_confirm,
  edit_score_confirm, setbaseline_value and updatevalue_value make no such check and
  write.
\<close>

theorem mutations_without_status_check:
  "get_challenge_status (instant february_morning) (get_current_challenge february_state)
     = Inr (Some ''ended'', Some ''Challenge has ended'')
   \<and> add_score_confirm february_morning february_state ''y'' 7 [1] 30
     = (february_state, Inr (CannotAddScores (Some ''Challenge has ended''), End))
   \<and> remove_score_confirm february_morning february_state ''y'' 7 [1]
     = (february_state\<lparr>scores :=
          [\<lparr>sc_user_id = 7, sc_date = (2025, 1, 3), sc_points = 100, sc_challenge_id = 1\<rparr>]\<rparr>,
        Inr (RemovedEntries 1, End))
   \<and> edit_score_confirm february_morning february_state ''y'' 7 [1] 30
     = (february_state\<lparr>scores :=
          [\<lparr>sc_user_id = 7, sc_date = (2025, 1, 3), sc_points = 100, sc_challenge_id = 1\<rparr>,
           \<lparr>sc_user_id = 7, sc_date = (2025, 2, 1), sc_points = 30, sc_challenge_id = 1\<rparr>]\<rparr>,
        Inr (PointsUpdated, End))
   \<and> baseline_values
       (fst (setbaseline_value ''2025-02-02 06:00:00'' february_state 70 7 (Some 1)))
     = [\<lparr>bv_user_id = 7, bv_challenge_id = 1, bv_baseline_value = 70, bv_current_value = 70,
         bv_last_updated = ''2025-02-02 06:00:00''\<rparr>]
   \<and> baseline_values
       (fst (updatevalue_value ''2025-02-02 06:05:00''
          (fst (setbaseline_value ''2025-02-02 06:00:00'' february_state 70 7 (Some 1)))
          68 7 (Some 1) (Some 70)))
     = [\<lparr>bv_user_id = 7, bv_challenge_id = 1, bv_baseline_value = 70, bv_current_value = 68,
         bv_last_updated = ''2025-02-02 06:05:00''\<rparr>]"
  by code_simp

text \<open>Counterexample to C5 as stated: a second set-baseline call for the same
  participant and challenge replaces the stored baseline value.\<close>

theorem setbaseline_value_counterexample:
  "map bv_baseline_value
     (baseline_values (fst (setbaseline_value ''2025-03-02 09:00:00'' march_state 70 7 (Some 1))))
     = [70]
   \<and> map bv_baseline_value
     (baseline_values
        (fst (setbaseline_value ''2025-03-09 09:00:00''
           (fst (setbaseline_value ''2025-03-02 09:00:00'' march_state 70 7 (Some 1)))
           80 7 (Some 1))))
     = [80]"
  by code_simp

text \<open>
  C5 (as amended). The baseline is written by insert-or-replace on (participant,
  challenge), the last write winning: after every accepted set-baseline call, whether or
  not a row existed before, exactly one row holds the key, its baseline_value is the value
  just submitted and its current_value equals that baseline; the rows of other keys are
  untouched.
\<close>

theorem setbaseline_value_last_write_wins:
  assumes "abs v \<le> 1000000" and "challenge_id \<noteq> 0"
  shows "filter (baseline_key user_id challenge_id)
           (baseline_values (fst (setbaseline_value ts s v user_id (Some challenge_id))))
         = [\<lparr>bv_user_id = user_id, bv_challenge_id = challenge_id, bv_baseline_value = v,
             bv_current_value = v, bv_last_updated = ts\<rparr>]
     \<and> filter (\<lambda>b. \<not> baseline_key user_id challenge_id b)
           (baseline_values (fst (setbaseline_value ts s v user_id (Some challenge_id))))
         = filter (\<lambda>b. \<not> baseline_key user_id challenge_id b) (baseline_values s)"
  using assms by (simp add: setbaseline_value_def baseline_key_def)

text \<open>Witness: the second of two calls, 80 after 70.\<close>

theorem setbaseline_value_last_write_wins_witness:
  "abs (80::real) \<le> 1000000 \<and> (1::int) \<noteq> 0
   \<and> filter (baseline_key 7 1)
        (baseline_values
           (fst (setbaseline_value ''2025-03-09 09:00:00''
              (fst (setbaseline_value ''2025-03-02 09:00:00'' march_state 70 7 (Some 1)))
              80 7 (Some 1))))
      = [\<lparr>bv_user_id = 7, bv_challenge_id = 1, bv_baseline_value = 80,
          bv_current_value = 80, bv_last_updated = ''2025-03-09 09:00:00''\<rparr>]"
proof -
  have h1: "abs (80::real) \<le> 1000000" by simp
  have h2: "(1::int) \<noteq> 0" by simp
  from setbaseline_value_last_write_wins [OF h1 h2, of 7 "''2025-03-09 09:00:00''"
      "fst (setbaseline_value ''2025-03-02 09:00:00'' march_state 70 7 (Some 1))"]
    h1 h2
  show ?thesis by blast
qed

section \<open>Statistics\<close>

lemma user_totals_eq:
  "user_totals s cid =
     map (\<lambda>u. (u, participant_total s cid u))
         (remdups (map sc_user_id (filter (\<lambda>r. sc_challenge_id r = cid) (scores s))))"
  by (simp add: user_totals_def participant_total_def Let_def conj_commute)

lemma positive_totals_eq:
  "filter (\<lambda>t. t > 0) (map snd (user_totals s cid)) =
     map (participant_total s cid)
       (filter (\<lambda>u. 0 < participant_total s cid u)
          (remdups (map sc_user_id (filter (\<lambda>r. sc_challenge_id r = cid) (scores s)))))"
  by (simp add: user_totals_eq filter_map comp_def)

lemma active_players_list:
  "set (filter (\<lambda>u. 0 < participant_total s cid u)
          (remdups (map sc_user_id (filter (\<lambda>r. sc_challenge_id r = cid) (scores s)))))
   = active_players s cid"
  by (auto simp: active_players_def participants_def)

lemma mean_over_distinct:
  assumes "distinct us" "us \<noteq> []"
  shows "mean (map real_of_int (map f us))
         = Some (real_of_int (sum f (set us)) / real (card (set us)))"
proof -
  have "sum_list (map real_of_int (map f us)) = real_of_int (sum_list (map f us))"
    by (induction us) simp_all
  also have "sum_list (map f us) = sum f (set us)"
    using assms(1) by (rule sum_list_distinct_conv_sum_set)
  finally show ?thesis
    using assms by (simp add: mean_def distinct_card)
qed

text \<open>Counterexample to C10 as stated: with totals 1 and 2 the mean over the active
  players is 3/2, and the statistic is 2.\<close>

theorem avg_points_per_player_counterexample:
  "mean_of_active_totals one_two_state 1 = 3 / 2
   \<and> avg_points_per_player one_two_state 1 = Some 2"
  by code_simp

text \<open>
  C10 (as amended). The average-points-per-active-player statistic is the mean of the
  per-participant totals over only the participants whose total is strictly positive,
  rounded to the nearest integer (a half to the even neighbour); participants whose total
  is zero or negative count neither in the numerator nor in the denominator. The statistic
  is absent when the challenge does not exist or no participant has a positive total.
\<close>

theorem avg_points_per_player_rounded_mean:
  "avg_points_per_player s cid =
     (if challenge_exists s cid \<and> active_players s cid \<noteq> {}
      then Some (py_round (mean_of_active_totals s cid)) else None)"
proof -
  let ?us = "filter (\<lambda>u. 0 < participant_total s cid u)
          (remdups (map sc_user_id (filter (\<lambda>r. sc_challenge_id r = cid) (scores s))))"
  have d: "distinct ?us" by simp
  have a: "set ?us = active_players s cid" by (rule active_players_list)
  show ?thesis
  proof (cases "?us = []")
    case True
    with a have "active_players s cid = {}" by simp
    with True show ?thesis
      by (simp add: avg_points_per_player_def positive_totals_eq mean_def)
  next
    case False
    with a have ne: "active_players s cid \<noteq> {}" by auto
    have fin: "finite (active_players s cid)" using a [symmetric] by simp
    have m: "mean (map real_of_int (map (participant_total s cid) ?us))
         = Some (mean_of_active_totals s cid)"
      unfolding mean_of_active_totals_def a [symmetric] by (rule mean_over_distinct [OF d False])
    have "0 < sum (participant_total s cid) (active_players s cid)"
      using fin ne by (intro sum_pos) (auto simp: active_players_def)
    then have p: "(0::real) < real_of_int (sum (participant_total s cid) (active_players s cid))"
      by (simp only: of_int_0_less_iff)
    have "0 < card (active_players s cid)"
      using fin ne by (simp add: card_gt_0_iff)
    then have c: "(0::real) < real (card (active_players s cid))"
      by (simp only: of_nat_0_less_iff)
    from p c have "0 < mean_of_active_totals s cid"
      unfolding mean_of_active_totals_def by (rule divide_pos_pos)
    then have "mean_of_active_totals s cid \<noteq> 0" by simp
    with ne m show ?thesis
      by (simp add: avg_points_per_player_def positive_totals_eq)
  qed
qed

text \<open>Witness: the example of the specification, totals 100, 0 and -5,
  gives 100.\<close>

theorem avg_points_per_player_rounded_mean_witness:
  "challenge_exists spec_totals_state 1 \<and> active_players spec_totals_state 1 = {1}
   \<and> avg_points_per_player spec_totals_state 1 = Some 100"
proof -
  have h1: "challenge_exists spec_totals_state 1" by code_simp
  have h2: "active_players spec_totals_state 1 = {1}" by code_simp
  have h3: "py_round (mean_of_active_totals spec_totals_state 1) = 100" by code_simp
  from avg_points_per_player_rounded_mean [of spec_totals_state 1] h1 h2 h3
  show ?thesis by simp
qed





end
